theory Spec2Isabelle
  imports Main "HOL-Library.Sublist"
begin

section \<open>Python values, exceptions and outcomes\<close>

text \<open>
  The values that \<open>yaml.safe_load\<close> and \<open>json.load\<close> can hand back: JSON's
  null, booleans, numbers, strings, arrays and objects, and YAML's binary, timestamp,
  set and ordered-pair values. A dict is the list of its items in insertion order
  (Python dicts hold each key once; YAML keys need not be strings).
\<close>

datatype pyfloat = Finite int int | PosInf | NegInf | NaN

datatype pyval =
    PNone
  | PBool bool
  | PInt int
  | PFloat pyfloat
  | PStr string
  | PBytes string
  | PDate string
  | PDateTime string
  | PList "pyval list"
  | PTuple "pyval list"
  | PSet "pyval list"
  | PDict "(pyval \<times> pyval) list"

text \<open>
  Exceptions are values: a class and the text \<open>str(e)\<close>. Only subclasses of
  \<open>Exception\<close> are represented; \<open>YAMLError\<close> stands for \<open>yaml.YAMLError\<close>
  and its subclasses, \<open>OSError\<close> for the I/O errors other than a missing file.
  \<open>SystemExit\<close> derives from \<open>BaseException\<close> only, so it is an outcome of
  its own that no \<open>except Exception\<close> clause catches.
\<close>

datatype exn_class =
    FileNotFoundError | OSError | YAMLError | JSONDecodeError | ValueError
  | TypeError | KeyError | ValidationError | SchemaError | OtherException

datatype exn = Exn exn_class string

fun exn_cls :: "exn \<Rightarrow> exn_class" where
  "exn_cls (Exn c m) = c"

fun exn_str :: "exn \<Rightarrow> string" where
  "exn_str (Exn c m) = m"

datatype 'a outcome = Return 'a | Raise exn | SysExit int

section \<open>Process state: the root logger and the output\<close>

datatype loglevel = DEBUG | INFO | WARNING | ERROR | CRITICAL

fun levelno :: "loglevel \<Rightarrow> nat" where
  "levelno DEBUG = 10"
| "levelno INFO = 20"
| "levelno WARNING = 30"
| "levelno ERROR = 40"
| "levelno CRITICAL = 50"

text \<open>
  Every call of \<open>logging.error\<close>, \<open>logging.info\<close>, ... is an event \<open>Log\<close> with
  its level, its message and whether the root logger's level let it through when the
  call was made; every \<open>print\<close> is an event \<open>Print\<close>. The time stamp of the log
  format is left out.
\<close>

datatype event = Log loglevel string bool | Print string

record pstate =
  root_level :: loglevel
  trace :: "event list"

definition logging_log :: "loglevel \<Rightarrow> string \<Rightarrow> pstate \<Rightarrow> pstate" where
  "logging_log lvl msg s =
     s\<lparr>trace := trace s @ [Log lvl msg (levelno (root_level s) \<le> levelno lvl)]\<rparr>"

definition print_line :: "string \<Rightarrow> pstate \<Rightarrow> pstate" where
  "print_line msg s = s\<lparr>trace := trace s @ [Print msg]\<rparr>"

fun stdout_of :: "event list \<Rightarrow> string list" where
  "stdout_of [] = []"
| "stdout_of (Print m # es) = m # stdout_of es"
| "stdout_of (Log l m b # es) = stdout_of es"

fun log_calls :: "event list \<Rightarrow> (loglevel \<times> string) list" where
  "log_calls [] = []"
| "log_calls (Print m # es) = log_calls es"
| "log_calls (Log l m b # es) = (l, m) # log_calls es"

fun stderr_of :: "event list \<Rightarrow> (loglevel \<times> string) list" where
  "stderr_of [] = []"
| "stderr_of (Print m # es) = stderr_of es"
| "stderr_of (Log l m b # es) = (if b then (l, m) # stderr_of es else stderr_of es)"

section \<open>The world outside the program\<close>

text \<open>
  The file system and the three library routines are parameters: \<open>open_file\<close> gives
  the contents of a path or the exception \<open>open\<close> raises, the two parsers give the
  parsed value of a file's contents or the exception they raise, and
  \<open>jsonschema_validate\<close> gives the exception \<open>jsonschema.validate\<close> raises, if any.
\<close>

record world =
  open_file :: "string \<Rightarrow> exn + string"
  yaml_safe_load :: "string \<Rightarrow> exn + pyval"
  json_load :: "string \<Rightarrow> exn + pyval"
  jsonschema_validate :: "pyval \<Rightarrow> pyval \<Rightarrow> exn option"

section \<open>Python operators used by the program\<close>

definition endswith :: "string \<Rightarrow> string \<Rightarrow> bool" where
  "endswith s suf = suffix suf s"

definition quoted :: "string \<Rightarrow> string" where
  "quoted s = [CHR 0x27] @ s @ [CHR 0x27]"

fun type_name :: "pyval \<Rightarrow> string" where
  "type_name PNone = ''NoneType''"
| "type_name (PBool b) = ''bool''"
| "type_name (PInt i) = ''int''"
| "type_name (PFloat f) = ''float''"
| "type_name (PStr s) = ''str''"
| "type_name (PBytes s) = ''bytes''"
| "type_name (PDate s) = ''datetime.date''"
| "type_name (PDateTime s) = ''datetime.datetime''"
| "type_name (PList xs) = ''list''"
| "type_name (PTuple xs) = ''tuple''"
| "type_name (PSet xs) = ''set''"
| "type_name (PDict kvs) = ''dict''"

text \<open>
  \<open>key in container\<close> for a string key: substring test on a string, element test on
  a list, tuple or set, key test on a dict, \<open>TypeError\<close> on everything else
  (message texts of CPython 3.12).
\<close>

fun py_contains :: "string \<Rightarrow> pyval \<Rightarrow> exn + bool" where
  "py_contains k (PStr s) = Inr (sublist k s)"
| "py_contains k (PList xs) = Inr (PStr k \<in> set xs)"
| "py_contains k (PTuple xs) = Inr (PStr k \<in> set xs)"
| "py_contains k (PSet xs) = Inr (PStr k \<in> set xs)"
| "py_contains k (PDict kvs) = Inr (map_of kvs (PStr k) \<noteq> None)"
| "py_contains k (PBytes s) = Inl (Exn TypeError (''a bytes-like object is required, not '' @ quoted ''str''))"
| "py_contains k v =
     Inl (Exn TypeError (''argument of type '' @ quoted (type_name v) @ '' is not iterable''))"

text \<open>\<open>container[key]\<close> for a string key: only a dict can be indexed by a string.\<close>

fun py_getitem :: "pyval \<Rightarrow> string \<Rightarrow> exn + pyval" where
  "py_getitem (PDict kvs) k =
     (case map_of kvs (PStr k) of
        Some v \<Rightarrow> Inr v
      | None \<Rightarrow> Inl (Exn KeyError (quoted k)))"
| "py_getitem (PStr s) k = Inl (Exn TypeError (''string indices must be integers, not '' @ quoted ''str''))"
| "py_getitem (PBytes s) k = Inl (Exn TypeError ''byte indices must be integers or slices, not str'')"
| "py_getitem (PList xs) k = Inl (Exn TypeError ''list indices must be integers or slices, not str'')"
| "py_getitem (PTuple xs) k = Inl (Exn TypeError ''tuple indices must be integers or slices, not str'')"
| "py_getitem v k =
     Inl (Exn TypeError (quoted (type_name v) @ '' object is not subscriptable''))"

section \<open>The program\<close>

definition and_then ::
  "'a outcome \<times> pstate \<Rightarrow> ('a \<Rightarrow> pstate \<Rightarrow> 'b outcome \<times> pstate) \<Rightarrow> 'b outcome \<times> pstate" where
  "and_then m f =
     (case m of
        (Return x, s) \<Rightarrow> f x s
      | (Raise e, s) \<Rightarrow> (Raise e, s)
      | (SysExit n, s) \<Rightarrow> (SysExit n, s))"

definition eval_op :: "exn + 'a \<Rightarrow> pstate \<Rightarrow> 'a outcome \<times> pstate" where
  "eval_op r s = (case r of Inl e \<Rightarrow> (Raise e, s) | Inr x \<Rightarrow> (Return x, s))"

text \<open>
  \<open>load_data\<close>: the file is opened first, the parser is chosen by suffix inside the
  \<open>with\<close> block, and any exception is logged by the first matching \<open>except\<close>
  clause and raised again.
\<close>

definition read_and_parse :: "world \<Rightarrow> string \<Rightarrow> exn + pyval" where
  "read_and_parse w file_path =
     (case open_file w file_path of
        Inl e \<Rightarrow> Inl e
      | Inr f \<Rightarrow>
          if endswith file_path ''.yaml'' \<or> endswith file_path ''.yml'' then yaml_safe_load w f
          else if endswith file_path ''.json'' then json_load w f
          else Inl (Exn ValueError ''Unsupported file format. Use YAML or JSON.''))"

definition load_data :: "world \<Rightarrow> string \<Rightarrow> pstate \<Rightarrow> pyval outcome \<times> pstate" where
  "load_data w file_path s =
     (case read_and_parse w file_path of
        Inr data \<Rightarrow> (Return data, s)
      | Inl e \<Rightarrow>
          if exn_cls e = FileNotFoundError then
            (Raise e, logging_log ERROR (''File not found: '' @ file_path) s)
          else if exn_cls e = YAMLError then
            (Raise e, logging_log ERROR (''Error parsing YAML file: '' @ exn_str e) s)
          else if exn_cls e = JSONDecodeError then
            (Raise e, logging_log ERROR (''Error parsing JSON file: '' @ exn_str e) s)
          else
            (Raise e, logging_log ERROR (''Error loading data: '' @ exn_str e) s))"

definition validate_data :: "world \<Rightarrow> pyval \<Rightarrow> pyval \<Rightarrow> pstate \<Rightarrow> bool outcome \<times> pstate" where
  "validate_data w data schema s =
     (case jsonschema_validate w data schema of
        None \<Rightarrow> (Return True, s)
      | Some e \<Rightarrow>
          if exn_cls e = ValidationError then
            (Return False, logging_log ERROR (''Validation error: '' @ exn_str e) s)
          else
            (Return False, logging_log ERROR (''Unexpected error during validation: '' @ exn_str e) s))"

record args =
  policy_file :: string
  data_file :: string
  log_level :: loglevel

definition msg_valid :: string where
  "msg_valid = ''Data is valid according to the policy.''"

definition msg_invalid :: string where
  "msg_invalid = ''Data does not conform to the defined policy.''"

definition msg_no_schema :: string where
  "msg_no_schema = ''Policy file must contain a '' @ quoted ''schema'' @ '' key.''"

text \<open>The body of the \<open>try\<close> block of \<open>main\<close>.\<close>

definition main_try :: "world \<Rightarrow> args \<Rightarrow> pstate \<Rightarrow> unit outcome \<times> pstate" where
  "main_try w a s0 =
     and_then (load_data w (policy_file a) s0) (\<lambda>policy_data s1.
     and_then (load_data w (data_file a) s1) (\<lambda>data_to_validate s2.
     and_then (eval_op (py_contains ''schema'' policy_data) s2) (\<lambda>has_schema s3.
       if \<not> has_schema then (SysExit 1, logging_log ERROR msg_no_schema s3)
       else
         and_then (eval_op (py_getitem policy_data ''schema'') s3) (\<lambda>schema s4.
         and_then (validate_data w data_to_validate schema s4) (\<lambda>is_valid s5.
           if is_valid then (Return (), print_line msg_valid (logging_log INFO msg_valid s5))
           else (Return (), print_line msg_invalid (logging_log WARNING msg_invalid s5)))))))"

text \<open>
  \<open>main\<close> after argument parsing: set the root logger's level, run the \<open>try\<close>
  block, and turn any \<open>Exception\<close> into a critical log record and \<open>sys.exit(1)\<close>.
\<close>

definition main :: "world \<Rightarrow> args \<Rightarrow> pstate \<Rightarrow> unit outcome \<times> pstate" where
  "main w a s =
     (case main_try w a (s\<lparr>root_level := log_level a\<rparr>) of
        (Raise e, s') \<Rightarrow>
          (SysExit 1, logging_log CRITICAL (''An unexpected error occurred: '' @ exn_str e) s')
      | (Return u, s') \<Rightarrow> (Return u, s')
      | (SysExit n, s') \<Rightarrow> (SysExit n, s'))"

text \<open>
  The process: \<open>logging.basicConfig(level=logging.INFO)\<close> at import, then \<open>main()\<close>.
  Returning from \<open>main\<close> is exit status 0, \<open>sys.exit(n)\<close> is status \<open>n\<close>, an
  uncaught exception is status 1.
\<close>

definition initial_state :: pstate where
  "initial_state = \<lparr>root_level = INFO, trace = []\<rparr>"

fun exit_status :: "unit outcome \<Rightarrow> int" where
  "exit_status (Return u) = 0"
| "exit_status (SysExit n) = n"
| "exit_status (Raise e) = 1"

definition run :: "world \<Rightarrow> args \<Rightarrow> int \<times> event list" where
  "run w a = (case main w a initial_state of (r, s) \<Rightarrow> (exit_status r, trace s))"

definition run_status :: "world \<Rightarrow> args \<Rightarrow> int" where
  "run_status w a = fst (run w a)"

definition run_stdout :: "world \<Rightarrow> args \<Rightarrow> string list" where
  "run_stdout w a = stdout_of (snd (run w a))"

definition run_log :: "world \<Rightarrow> args \<Rightarrow> (loglevel \<times> string) list" where
  "run_log w a = log_calls (snd (run w a))"

section \<open>Changing the log level of a state\<close>

text \<open>
  \<open>relevel l s\<close> is the state \<open>s\<close> as it would be had the root logger's level been
  \<open>l\<close> all along: the same calls in the same order, each let through or not by \<open>l\<close>.
\<close>

fun reflag :: "loglevel \<Rightarrow> event \<Rightarrow> event" where
  "reflag l (Log lvl msg b) = Log lvl msg (levelno l \<le> levelno lvl)"
| "reflag l (Print msg) = Print msg"

definition relevel :: "loglevel \<Rightarrow> pstate \<Rightarrow> pstate" where
  "relevel l s = \<lparr>root_level = l, trace = map (reflag l) (trace s)\<rparr>"

definition on_state :: "(pstate \<Rightarrow> pstate) \<Rightarrow> 'a outcome \<times> pstate \<Rightarrow> 'a outcome \<times> pstate" where
  "on_state g r = (fst r, g (snd r))"

section \<open>A small world for the scenarios of the specification\<close>

text \<open>
  A file system with two policies, data documents in both formats, a policy without a
  schema, a scalar, an empty file and a text file; parsers and a validator that answer
  on these contents as PyYAML, \<open>json\<close> and \<open>jsonschema\<close> do. Every other path
  does not exist.
\<close>

definition policy_text :: string where
  "policy_text = ''schema: {type: object, required: [name], properties: {name: {type: string}}}''"

definition example_schema :: pyval where
  "example_schema =
     PDict [(PStr ''type'', PStr ''object''),
            (PStr ''required'', PList [PStr ''name'']),
            (PStr ''properties'', PDict [(PStr ''name'', PDict [(PStr ''type'', PStr ''string'')])])]"

definition example_policy :: pyval where
  "example_policy = PDict [(PStr ''schema'', example_schema)]"

definition data_alice :: pyval where
  "data_alice = PDict [(PStr ''name'', PStr ''alice'')]"

definition data_age :: pyval where
  "data_age = PDict [(PStr ''age'', PInt 5)]"

definition no_such_file :: "string \<Rightarrow> exn" where
  "no_such_file p = Exn FileNotFoundError (''[Errno 2] No such file or directory: '' @ quoted p)"

definition required_name :: exn where
  "required_name = Exn ValidationError (quoted ''name'' @ '' is a required property'')"

definition bad_schema :: exn where
  "bad_schema = Exn SchemaError (''5 is not of type '' @ quoted ''object'' @ '', '' @ quoted ''boolean'')"

text \<open>
  \<open>notes.txt\<close> is a regular file, so opening a path below it fails with
  \<open>NotADirectoryError\<close>, a subclass of \<open>OSError\<close> that is not a
  \<open>FileNotFoundError\<close>.
\<close>

definition not_a_directory :: "string \<Rightarrow> exn" where
  "not_a_directory p = Exn OSError (''[Errno 20] Not a directory: '' @ quoted p)"

text \<open>
  The same JSON text in a \<open>.json\<close> and in a \<open>.yaml\<close> file: the JSON parser
  reads \<open>1e3\<close> as the float 1000.0, PyYAML as the string \<open>1e3\<close> (its floats need
  a dot). \<open>Finite m e\<close> is the float \<open>m * 2 ^ e\<close>.
\<close>

definition dquoted :: "string \<Rightarrow> string" where
  "dquoted s = [CHR 0x22] @ s @ [CHR 0x22]"

definition num_text :: string where
  "num_text = ''{'' @ dquoted ''a'' @ '': 1e3}''"

definition json_num :: pyval where
  "json_num = PDict [(PStr ''a'', PFloat (Finite 1000 0))]"

definition yaml_num :: pyval where
  "yaml_num = PDict [(PStr ''a'', PStr ''1e3'')]"

definition alice_json_text :: string where
  "alice_json_text = ''{'' @ dquoted ''name'' @ '': '' @ dquoted ''alice'' @ ''}''"

definition number_policy_text :: string where
  "number_policy_text = ''schema: {type: object, properties: {a: {type: number}}}''"

definition number_schema :: pyval where
  "number_schema =
     PDict [(PStr ''type'', PStr ''object''),
            (PStr ''properties'', PDict [(PStr ''a'', PDict [(PStr ''type'', PStr ''number'')])])]"

definition number_policy :: pyval where
  "number_policy = PDict [(PStr ''schema'', number_schema)]"

definition not_a_number :: exn where
  "not_a_number = Exn ValidationError (quoted ''1e3'' @ '' is not of type '' @ quoted ''number'')"

definition example_open :: "string \<Rightarrow> exn + string" where
  "example_open p =
     (if p = ''policy.yaml'' then Inr policy_text
      else if p = ''alice.yaml'' then Inr ''name: alice''
      else if p = ''age.yaml'' then Inr ''age: 5''
      else if p = ''noschema.yaml'' then Inr ''notschema: {}''
      else if p = ''hello.yaml'' then Inr ''hello''
      else if p = ''empty.yaml'' then Inr []
      else if p = ''obj.yaml'' then Inr ''{}''
      else if p = ''obj.json'' then Inr ''{}''
      else if p = ''notes.txt'' then Inr ''name: alice''
      else if p = ''notes.txt/x.txt'' then Inl (not_a_directory p)
      else if p = ''alice.json'' then Inr alice_json_text
      else if p = ''num.json'' then Inr num_text
      else if p = ''num.yaml'' then Inr num_text
      else if p = ''number.yaml'' then Inr number_policy_text
      else Inl (no_such_file p))"

definition example_yaml :: "string \<Rightarrow> exn + pyval" where
  "example_yaml c =
     (if c = policy_text then Inr example_policy
      else if c = ''name: alice'' then Inr data_alice
      else if c = ''age: 5'' then Inr data_age
      else if c = ''notschema: {}'' then Inr (PDict [(PStr ''notschema'', PDict [])])
      else if c = ''hello'' then Inr (PStr ''hello'')
      else if c = [] then Inr PNone
      else if c = ''{}'' then Inr (PDict [])
      else if c = num_text then Inr yaml_num
      else if c = number_policy_text then Inr number_policy
      else Inl (Exn YAMLError ''could not find expected document''))"

definition example_json :: "string \<Rightarrow> exn + pyval" where
  "example_json c =
     (if c = ''{}'' then Inr (PDict [])
      else if c = alice_json_text then Inr data_alice
      else if c = num_text then Inr json_num
      else Inl (Exn JSONDecodeError ''Expecting value: line 1 column 1 (char 0)''))"

definition example_validate :: "pyval \<Rightarrow> pyval \<Rightarrow> exn option" where
  "example_validate d sch =
     (if sch = example_schema then (if d = data_alice then None else Some required_name)
      else if sch = PInt 5 then Some bad_schema
      else if sch = number_schema then (if d = json_num then None else Some not_a_number)
      else None)"

definition example_world :: world where
  "example_world =
     \<lparr>open_file = example_open, yaml_safe_load = example_yaml,
      json_load = example_json, jsonschema_validate = example_validate\<rparr>"

definition cli :: "string \<Rightarrow> string \<Rightarrow> loglevel \<Rightarrow> args" where
  "cli p d l = \<lparr>policy_file = p, data_file = d, log_level = l\<rparr>"

section \<open>Basic facts\<close>

lemma trace_logging_log [simp]:
  "trace (logging_log l m s) = trace s @ [Log l m (levelno (root_level s) \<le> levelno l)]"
  by (simp add: logging_log_def)

lemma root_level_logging_log [simp]: "root_level (logging_log l m s) = root_level s"
  by (simp add: logging_log_def)

lemma trace_print_line [simp]: "trace (print_line m s) = trace s @ [Print m]"
  by (simp add: print_line_def)

lemma root_level_print_line [simp]: "root_level (print_line m s) = root_level s"
  by (simp add: print_line_def)

lemma stdout_of_append [simp]: "stdout_of (xs @ ys) = stdout_of xs @ stdout_of ys"
  by (induction xs rule: stdout_of.induct) simp_all

lemma log_calls_append [simp]: "log_calls (xs @ ys) = log_calls xs @ log_calls ys"
  by (induction xs rule: log_calls.induct) simp_all

lemma stdout_of_reflag [simp]: "stdout_of (map (reflag l) es) = stdout_of es"
  by (induction es rule: stdout_of.induct) simp_all

lemma log_calls_reflag [simp]: "log_calls (map (reflag l) es) = log_calls es"
  by (induction es rule: log_calls.induct) simp_all

lemma and_then_Return [simp]: "and_then (Return x, s) f = f x s"
  by (simp add: and_then_def)

lemma and_then_Raise [simp]: "and_then (Raise e, s) f = (Raise e, s)"
  by (simp add: and_then_def)

lemma and_then_SysExit [simp]: "and_then (SysExit n, s) f = (SysExit n, s)"
  by (simp add: and_then_def)

lemma eval_op_Inl [simp]: "eval_op (Inl e) s = (Raise e, s)"
  by (simp add: eval_op_def)

lemma eval_op_Inr [simp]: "eval_op (Inr x) s = (Return x, s)"
  by (simp add: eval_op_def)

subsection \<open>The loader\<close>

lemma load_data_Return: "read_and_parse w p = Inr v \<Longrightarrow> load_data w p s = (Return v, s)"
  by (simp add: load_data_def)

lemma load_data_Raise:
  "read_and_parse w p = Inl e \<Longrightarrow> \<exists>m. load_data w p s = (Raise e, logging_log ERROR m s)"
  by (auto simp add: load_data_def)

lemma load_data_not_found:
  "open_file w p = Inl e \<Longrightarrow> exn_cls e = FileNotFoundError \<Longrightarrow>
   load_data w p s = (Raise e, logging_log ERROR (''File not found: '' @ p) s)"
  by (simp add: load_data_def read_and_parse_def)

lemma load_data_returns_iff: "fst (load_data w p s) = Return v \<longleftrightarrow> read_and_parse w p = Inr v"
  by (auto simp add: load_data_def split: sum.splits)

lemma load_data_open_fails:
  assumes "open_file w p = Inl e"
  shows "fst (load_data w p s) = Raise e"
    and "exn_cls e \<noteq> FileNotFoundError \<Longrightarrow> exn_cls e \<noteq> YAMLError \<Longrightarrow>
         exn_cls e \<noteq> JSONDecodeError \<Longrightarrow>
         load_data w p s = (Raise e, logging_log ERROR (''Error loading data: '' @ exn_str e) s)"
  using assms by (simp_all add: load_data_def read_and_parse_def)

lemma read_and_parse_open_fails: "open_file w p = Inl e \<Longrightarrow> read_and_parse w p = Inl e"
  by (simp add: read_and_parse_def)

lemma read_and_parse_unsupported:
  "\<not> endswith p ''.yaml'' \<Longrightarrow> \<not> endswith p ''.yml'' \<Longrightarrow> \<not> endswith p ''.json'' \<Longrightarrow>
   \<exists>e. read_and_parse w p = Inl e"
  by (simp add: read_and_parse_def split: sum.splits)

lemma read_and_parse_validate_irrelevant [simp]:
  "read_and_parse (w\<lparr>jsonschema_validate := V\<rparr>) p = read_and_parse w p"
  by (simp add: read_and_parse_def split: sum.splits)

lemma load_data_validate_irrelevant [simp]:
  "load_data (w\<lparr>jsonschema_validate := V\<rparr>) p s = load_data w p s"
  by (simp add: load_data_def)

lemma json_suffix_not_yaml:
  "endswith p ''.json'' \<Longrightarrow> \<not> endswith p ''.yaml'' \<and> \<not> endswith p ''.yml''"
proof -
  assume j: "endswith p ''.json''"
  have a: "\<not> endswith p ''.yaml''"
  proof
    assume "endswith p ''.yaml''"
    with j have "suffix ''.json'' ''.yaml'' \<or> suffix ''.yaml'' ''.json''"
      unfolding endswith_def by (rule suffix_same_cases)
    then show False by (simp add: suffix_to_prefix)
  qed
  have b: "\<not> endswith p ''.yml''"
  proof
    assume "endswith p ''.yml''"
    with j have "suffix ''.json'' ''.yml'' \<or> suffix ''.yml'' ''.json''"
      unfolding endswith_def by (rule suffix_same_cases)
    then show False by (simp add: suffix_to_prefix)
  qed
  from a b show ?thesis ..
qed

subsection \<open>Runs whose loads are known\<close>

lemma main_policy_fails:
  assumes "read_and_parse w (policy_file a) = Inl e"
  shows "\<exists>m. main w a s =
           (SysExit 1,
            logging_log CRITICAL (''An unexpected error occurred: '' @ exn_str e)
              (logging_log ERROR m (s\<lparr>root_level := log_level a\<rparr>)))"
proof -
  from load_data_Raise [OF assms] obtain m where
    "load_data w (policy_file a) (s\<lparr>root_level := log_level a\<rparr>) =
       (Raise e, logging_log ERROR m (s\<lparr>root_level := log_level a\<rparr>))"
    by blast
  then have "main w a s =
           (SysExit 1,
            logging_log CRITICAL (''An unexpected error occurred: '' @ exn_str e)
              (logging_log ERROR m (s\<lparr>root_level := log_level a\<rparr>)))"
    by (simp add: main_def main_try_def)
  then show ?thesis ..
qed

lemma main_data_fails:
  assumes "read_and_parse w (policy_file a) = Inr v" and "read_and_parse w (data_file a) = Inl e"
  shows "\<exists>m. main w a s =
           (SysExit 1,
            logging_log CRITICAL (''An unexpected error occurred: '' @ exn_str e)
              (logging_log ERROR m (s\<lparr>root_level := log_level a\<rparr>)))"
proof -
  from load_data_Raise [OF assms(2)] obtain m where
    "load_data w (data_file a) (s\<lparr>root_level := log_level a\<rparr>) =
       (Raise e, logging_log ERROR m (s\<lparr>root_level := log_level a\<rparr>))"
    by blast
  then have "main w a s =
           (SysExit 1,
            logging_log CRITICAL (''An unexpected error occurred: '' @ exn_str e)
              (logging_log ERROR m (s\<lparr>root_level := log_level a\<rparr>)))"
    by (simp add: main_def main_try_def load_data_Return [OF assms(1)])
  then show ?thesis ..
qed

lemma main_try_loaded:
  assumes "read_and_parse w (policy_file a) = Inr policy_data"
    and "read_and_parse w (data_file a) = Inr d"
  shows "main_try w a s =
     and_then (eval_op (py_contains ''schema'' policy_data) s) (\<lambda>has_schema s3.
       if \<not> has_schema then (SysExit 1, logging_log ERROR msg_no_schema s3)
       else
         and_then (eval_op (py_getitem policy_data ''schema'') s3) (\<lambda>schema s4.
         and_then (validate_data w d schema s4) (\<lambda>is_valid s5.
           if is_valid then (Return (), print_line msg_valid (logging_log INFO msg_valid s5))
           else (Return (), print_line msg_invalid (logging_log WARNING msg_invalid s5)))))"
  by (simp add: main_try_def load_data_Return [OF assms(1)] load_data_Return [OF assms(2)])

lemma status_of_run: "run_status w a = exit_status (fst (main w a initial_state))"
  by (simp add: run_status_def run_def split: prod.splits)

lemma stdout_of_run: "run_stdout w a = stdout_of (trace (snd (main w a initial_state)))"
  by (simp add: run_stdout_def run_def split: prod.splits)

lemma log_of_run: "run_log w a = log_calls (trace (snd (main w a initial_state)))"
  by (simp add: run_log_def run_def split: prod.splits)

lemma trace_initial [simp]: "trace (initial_state\<lparr>root_level := l\<rparr>) = []"
  by (simp add: initial_state_def)

lemma root_level_initial [simp]: "root_level (initial_state\<lparr>root_level := l\<rparr>) = l"
  by (simp add: initial_state_def)

subsection \<open>Non-mappings\<close>

lemma py_contains_error_is_TypeError: "py_contains k v = Inl e \<Longrightarrow> exn_cls e = TypeError"
  by (cases v) auto

lemma py_getitem_non_dict:
  "\<forall>kvs. v \<noteq> PDict kvs \<Longrightarrow> \<exists>e. py_getitem v k = Inl e \<and> exn_cls e = TypeError"
  by (cases v) auto

subsection \<open>The example world\<close>

lemma example_fields [simp]:
  "open_file example_world = example_open"
  "yaml_safe_load example_world = example_yaml"
  "json_load example_world = example_json"
  "jsonschema_validate example_world = example_validate"
  by (simp_all add: example_world_def)

lemma cli_fields [simp]:
  "policy_file (cli p d l) = p" "data_file (cli p d l) = d" "log_level (cli p d l) = l"
  by (simp_all add: cli_def)

lemma endswith_eval:
  "endswith ''policy.yaml'' ''.yaml''" "endswith ''alice.yaml'' ''.yaml''"
  "endswith ''age.yaml'' ''.yaml''" "endswith ''noschema.yaml'' ''.yaml''"
  "endswith ''hello.yaml'' ''.yaml''" "endswith ''empty.yaml'' ''.yaml''"
  "endswith ''obj.yaml'' ''.yaml''" "endswith ''obj.json'' ''.json''"
  "\<not> endswith ''obj.json'' ''.yaml''" "\<not> endswith ''obj.json'' ''.yml''"
  "\<not> endswith ''notes.txt'' ''.yaml''" "\<not> endswith ''notes.txt'' ''.yml''"
  "\<not> endswith ''notes.txt'' ''.json''"
  "\<not> endswith ''missing.txt'' ''.yaml''" "\<not> endswith ''missing.txt'' ''.yml''"
  "\<not> endswith ''missing.txt'' ''.json''"
  by (simp_all add: endswith_def suffix_to_prefix)

lemma example_loads:
  "read_and_parse example_world ''policy.yaml'' = Inr example_policy"
  "read_and_parse example_world ''alice.yaml'' = Inr data_alice"
  "read_and_parse example_world ''age.yaml'' = Inr data_age"
  "read_and_parse example_world ''noschema.yaml'' = Inr (PDict [(PStr ''notschema'', PDict [])])"
  "read_and_parse example_world ''hello.yaml'' = Inr (PStr ''hello'')"
  "read_and_parse example_world ''empty.yaml'' = Inr PNone"
  "read_and_parse example_world ''obj.yaml'' = Inr (PDict [])"
  "read_and_parse example_world ''obj.json'' = Inr (PDict [])"
  by (simp_all add: read_and_parse_def endswith_eval example_open_def example_yaml_def
        example_json_def policy_text_def)

lemma example_missing:
  "example_open ''missing.txt'' = Inl (no_such_file ''missing.txt'')"
  "example_open ''missing.json'' = Inl (no_such_file ''missing.json'')"
  "example_open ''absent.cfg'' = Inl (no_such_file ''absent.cfg'')"
  by (simp_all add: example_open_def)

lemma example_more:
  "example_open ''notes.txt/x.txt'' = Inl (not_a_directory ''notes.txt/x.txt'')"
  "example_open ''notes.txt'' = Inr ''name: alice''"
  "example_open ''alice.json'' = Inr alice_json_text"
  "example_open ''alice.yaml'' = Inr ''name: alice''"
  "example_open ''num.json'' = Inr num_text"
  "example_open ''num.yaml'' = Inr num_text"
  "example_json alice_json_text = Inr data_alice"
  "example_yaml ''name: alice'' = Inr data_alice"
  "example_json num_text = Inr json_num"
  "example_yaml num_text = Inr yaml_num"
  by (simp_all add: example_open_def example_json_def example_yaml_def policy_text_def
        number_policy_text_def num_text_def alice_json_text_def dquoted_def)

lemma endswith_more:
  "endswith ''alice.json'' ''.json''" "endswith ''num.json'' ''.json''"
  "endswith ''num.yaml'' ''.yaml''" "endswith ''number.yaml'' ''.yaml''"
  "\<not> endswith ''num.json'' ''.yaml''" "\<not> endswith ''num.json'' ''.yml''"
  by (simp_all add: endswith_def suffix_to_prefix)

lemma example_num_loads:
  "read_and_parse example_world ''num.json'' = Inr json_num"
  "read_and_parse example_world ''num.yaml'' = Inr yaml_num"
  "read_and_parse example_world ''number.yaml'' = Inr number_policy"
  by (simp_all add: read_and_parse_def endswith_more example_open_def example_yaml_def
        example_json_def policy_text_def number_policy_text_def num_text_def
        alice_json_text_def dquoted_def)

lemma not_a_directory_cls [simp]: "exn_cls (not_a_directory p) = OSError"
  by (simp add: not_a_directory_def)

lemma no_such_file_cls [simp]: "exn_cls (no_such_file p) = FileNotFoundError"
  by (simp add: no_such_file_def)

lemma example_policy_schema:
  "map_of [(PStr ''schema'', example_schema)] (PStr ''schema'') = Some example_schema"
  by simp


subsection \<open>Runs that end in the top-level handler\<close>

lemma run_of_failed_main:
  assumes "main w a initial_state =
     (SysExit 1, logging_log CRITICAL c (logging_log ERROR m (initial_state\<lparr>root_level := log_level a\<rparr>)))"
  shows "run_status w a = 1 \<and> run_stdout w a = [] \<and> run_log w a = [(ERROR, m), (CRITICAL, c)]"
  by (simp add: status_of_run stdout_of_run log_of_run assms)

lemma load_fails_exit:
  assumes "(\<exists>e. read_and_parse w (policy_file a) = Inl e) \<or> (\<exists>e. read_and_parse w (data_file a) = Inl e)"
  shows "run_status w a = 1 \<and> run_stdout w a = [] \<and>
         (\<exists>m e. run_log w a = [(ERROR, m), (CRITICAL, ''An unexpected error occurred: '' @ exn_str e)])"
proof (cases "read_and_parse w (policy_file a)")
  case (Inl e)
  from main_policy_fails [OF Inl, where s = initial_state] obtain m where
    "main w a initial_state =
       (SysExit 1, logging_log CRITICAL (''An unexpected error occurred: '' @ exn_str e)
          (logging_log ERROR m (initial_state\<lparr>root_level := log_level a\<rparr>)))"
    by blast
  from run_of_failed_main [OF this] show ?thesis by blast
next
  case (Inr v)
  with assms obtain e where "read_and_parse w (data_file a) = Inl e" by auto
  from main_data_fails [OF Inr this, where s = initial_state] obtain m where
    "main w a initial_state =
       (SysExit 1, logging_log CRITICAL (''An unexpected error occurred: '' @ exn_str e)
          (logging_log ERROR m (initial_state\<lparr>root_level := log_level a\<rparr>)))"
    by blast
  from run_of_failed_main [OF this] show ?thesis by blast
qed

lemma main_policy_not_found:
  assumes "open_file w (policy_file a) = Inl e" and "exn_cls e = FileNotFoundError"
  shows "main w a initial_state =
     (SysExit 1, logging_log CRITICAL (''An unexpected error occurred: '' @ exn_str e)
        (logging_log ERROR (''File not found: '' @ policy_file a) (initial_state\<lparr>root_level := log_level a\<rparr>)))"
  by (simp add: main_def main_try_def load_data_not_found [OF assms])

lemma main_data_not_found:
  assumes "read_and_parse w (policy_file a) = Inr v"
    and "open_file w (data_file a) = Inl e" and "exn_cls e = FileNotFoundError"
  shows "main w a initial_state =
     (SysExit 1, logging_log CRITICAL (''An unexpected error occurred: '' @ exn_str e)
        (logging_log ERROR (''File not found: '' @ data_file a) (initial_state\<lparr>root_level := log_level a\<rparr>)))"
  by (simp add: main_def main_try_def load_data_Return [OF assms(1)] load_data_not_found [OF assms(2,3)])

subsection \<open>The log level only sets the flags of the log events\<close>

lemma logging_log_relevel: "logging_log lvl m (relevel l s) = relevel l (logging_log lvl m s)"
  by (simp add: logging_log_def relevel_def)

lemma print_line_relevel: "print_line m (relevel l s) = relevel l (print_line m s)"
  by (simp add: print_line_def relevel_def)

lemma load_data_relevel: "load_data w p (relevel l s) = on_state (relevel l) (load_data w p s)"
  by (simp add: load_data_def on_state_def logging_log_relevel split: sum.splits)

lemma validate_data_relevel:
  "validate_data w d sch (relevel l s) = on_state (relevel l) (validate_data w d sch s)"
  by (simp add: validate_data_def on_state_def logging_log_relevel split: option.splits)

lemma main_try_args [simp]: "main_try w (a\<lparr>log_level := l\<rparr>) s = main_try w a s"
  by (simp add: main_try_def)

lemma main_try_relevel: "main_try w a (relevel l s) = on_state (relevel l) (main_try w a s)"
proof (cases "read_and_parse w (policy_file a)")
  case (Inl e)
  then show ?thesis
    by (simp add: main_try_def load_data_def on_state_def logging_log_relevel)
next
  case p: (Inr policy_data)
  show ?thesis
  proof (cases "read_and_parse w (data_file a)")
    case (Inl e)
    with p show ?thesis
      by (simp add: main_try_def load_data_def on_state_def logging_log_relevel)
  next
    case d: (Inr dat)
    show ?thesis
      by (simp add: main_try_loaded [OF p d] validate_data_def eval_op_def on_state_def
            logging_log_relevel print_line_relevel split: sum.splits option.splits)
  qed
qed

lemma initial_relevel:
  "initial_state\<lparr>root_level := l\<rparr> = relevel l (initial_state\<lparr>root_level := l'\<rparr>)"
  by (simp add: initial_state_def relevel_def)

lemma main_relevel:
  "main w (a\<lparr>log_level := l\<rparr>) initial_state = on_state (relevel l) (main w a initial_state)"
proof -
  have "main_try w a (initial_state\<lparr>root_level := l\<rparr>) =
        on_state (relevel l) (main_try w a (initial_state\<lparr>root_level := log_level a\<rparr>))"
    by (subst initial_relevel [of l "log_level a"]) (rule main_try_relevel)
  then show ?thesis
    by (cases "main_try w a (initial_state\<lparr>root_level := log_level a\<rparr>)";
        cases "fst (main_try w a (initial_state\<lparr>root_level := log_level a\<rparr>))")
       (simp_all add: main_def on_state_def logging_log_relevel)
qed

lemma run_relevel:
  "run_status w (a\<lparr>log_level := l\<rparr>) = run_status w a"
  "run_stdout w (a\<lparr>log_level := l\<rparr>) = run_stdout w a"
  "run_log w (a\<lparr>log_level := l\<rparr>) = run_log w a"
  by (simp_all add: status_of_run stdout_of_run log_of_run main_relevel on_state_def relevel_def)

section \<open>The validator\<close>





section \<open>Runs\<close>



text \<open>
  C4: when both files load and the policy is a mapping without the key \<open>schema\<close>,
  the \<open>try\<close> block ends in \<open>sys.exit(1)\<close> after the one error record "Policy file
  must contain a 'schema' key."; nothing is printed, the exit status is 1, no critical
  record of the top-level handler is logged, and the run is the same whatever the
  validation routine would do, so no validation is attempted.
\<close>

theorem missing_schema_key_exit:
  assumes "read_and_parse w (policy_file a) = Inr (PDict kvs)"
    and "map_of kvs (PStr ''schema'') = None"
    and "read_and_parse w (data_file a) = Inr d"
  shows "main_try w a (initial_state\<lparr>root_level := log_level a\<rparr>) =
           (SysExit 1, logging_log ERROR msg_no_schema (initial_state\<lparr>root_level := log_level a\<rparr>)) \<and>
         run_status w a = 1 \<and> run_stdout w a = [] \<and>
         run_log w a = [(ERROR, msg_no_schema)] \<and>
         (\<forall>V. run (w\<lparr>jsonschema_validate := V\<rparr>) a = run w a)"
proof -
  have t: "\<And>s. main_try w a s = (SysExit 1, logging_log ERROR msg_no_schema s)"
    using assms(2) by (simp add: main_try_loaded [OF assms(1,3)])
  have t': "\<And>V s. main_try (w\<lparr>jsonschema_validate := V\<rparr>) a s =
                 (SysExit 1, logging_log ERROR msg_no_schema s)"
  proof -
    fix V s
    have p: "read_and_parse (w\<lparr>jsonschema_validate := V\<rparr>) (policy_file a) = Inr (PDict kvs)"
      using assms(1) by simp
    have d: "read_and_parse (w\<lparr>jsonschema_validate := V\<rparr>) (data_file a) = Inr d"
      using assms(3) by simp
    show "main_try (w\<lparr>jsonschema_validate := V\<rparr>) a s =
          (SysExit 1, logging_log ERROR msg_no_schema s)"
      using assms(2) by (simp add: main_try_loaded [OF p d])
  qed
  show ?thesis
    by (simp add: status_of_run stdout_of_run log_of_run run_def main_def t t')
qed

theorem missing_schema_key_exit_witness:
  "main_try example_world (cli ''noschema.yaml'' ''alice.yaml'' INFO) (initial_state\<lparr>root_level := INFO\<rparr>) =
     (SysExit 1, logging_log ERROR msg_no_schema (initial_state\<lparr>root_level := INFO\<rparr>)) \<and>
   run_status example_world (cli ''noschema.yaml'' ''alice.yaml'' INFO) = 1 \<and>
   run_stdout example_world (cli ''noschema.yaml'' ''alice.yaml'' INFO) = [] \<and>
   run_log example_world (cli ''noschema.yaml'' ''alice.yaml'' INFO) = [(ERROR, msg_no_schema)]"
proof -
  have k: "map_of [(PStr ''notschema'', PDict [])] (PStr ''schema'') = None"
    by simp
  have p: "read_and_parse example_world (policy_file (cli ''noschema.yaml'' ''alice.yaml'' INFO)) =
           Inr (PDict [(PStr ''notschema'', PDict [])])"
    by (simp add: example_loads)
  have d: "read_and_parse example_world (data_file (cli ''noschema.yaml'' ''alice.yaml'' INFO)) =
           Inr data_alice"
    by (simp add: example_loads)
  from missing_schema_key_exit [OF p k d] show ?thesis by simp
qed

section \<open>The loader\<close>

text \<open>
  C5, as stated, fails: a path with an unsupported suffix that does not exist fails
  with the file-not-found error, not with the unsupported-format error.
\<close>

theorem unsupported_suffix_counterexample:
  "\<not> endswith ''missing.txt'' ''.yaml'' \<and> \<not> endswith ''missing.txt'' ''.yml'' \<and>
   \<not> endswith ''missing.txt'' ''.json'' \<and>
   load_data example_world ''missing.txt'' initial_state =
     (Raise (no_such_file ''missing.txt''),
      logging_log ERROR ''File not found: missing.txt'' initial_state) \<and>
   exn_cls (no_such_file ''missing.txt'') = FileNotFoundError"
  by (simp add: endswith_eval load_data_not_found [of example_world] example_missing)

text \<open>
  C5, amended: when the file can be opened and its name ends in none of \<open>.yaml\<close>,
  \<open>.yml\<close>, \<open>.json\<close>, loading it raises the unsupported-format error, logged at error
  level; with such a name loading never returns a value, whether the file opens or
  not, and a run given such a path as policy file or as data file prints nothing and
  exits with status 1.
\<close>

theorem unsupported_suffix_fails:
  assumes "\<not> endswith p ''.yaml''" and "\<not> endswith p ''.yml''" and "\<not> endswith p ''.json''"
  shows "(\<forall>f. open_file w p = Inr f \<longrightarrow>
            load_data w p s =
              (Raise (Exn ValueError ''Unsupported file format. Use YAML or JSON.''),
               logging_log ERROR
                 ''Error loading data: Unsupported file format. Use YAML or JSON.'' s)) \<and>
         (\<forall>v. fst (load_data w p s) \<noteq> Return v) \<and>
         (policy_file a = p \<or> data_file a = p \<longrightarrow> run_status w a = 1 \<and> run_stdout w a = [])"
proof -
  from read_and_parse_unsupported [OF assms] obtain e where e: "read_and_parse w p = Inl e"
    by blast
  have 1: "\<forall>f. open_file w p = Inr f \<longrightarrow>
            load_data w p s =
              (Raise (Exn ValueError ''Unsupported file format. Use YAML or JSON.''),
               logging_log ERROR
                 ''Error loading data: Unsupported file format. Use YAML or JSON.'' s)"
    using assms by (simp add: load_data_def read_and_parse_def)
  from load_data_Raise [OF e, where s = s] have 2: "\<forall>v. fst (load_data w p s) \<noteq> Return v"
    by auto
  have 3: "policy_file a = p \<or> data_file a = p \<longrightarrow> run_status w a = 1 \<and> run_stdout w a = []"
  proof
    assume "policy_file a = p \<or> data_file a = p"
    with e have "(\<exists>e. read_and_parse w (policy_file a) = Inl e) \<or>
                 (\<exists>e. read_and_parse w (data_file a) = Inl e)"
      by auto
    from load_fails_exit [OF this] show "run_status w a = 1 \<and> run_stdout w a = []"
      by blast
  qed
  from 1 2 3 show ?thesis by blast
qed

theorem unsupported_suffix_fails_witness:
  "load_data example_world ''notes.txt'' initial_state =
     (Raise (Exn ValueError ''Unsupported file format. Use YAML or JSON.''),
      logging_log ERROR ''Error loading data: Unsupported file format. Use YAML or JSON.''
        initial_state) \<and>
   run_status example_world (cli ''policy.yaml'' ''notes.txt'' INFO) = 1 \<and>
   run_stdout example_world (cli ''policy.yaml'' ''notes.txt'' INFO) = []"
proof -
  have o: "open_file example_world ''notes.txt'' = Inr ''name: alice''"
    by (simp add: example_open_def)
  have d: "data_file (cli ''policy.yaml'' ''notes.txt'' INFO) = ''notes.txt''"
    by simp
  from unsupported_suffix_fails [OF endswith_eval(11) endswith_eval(12) endswith_eval(13),
      of example_world initial_state "cli ''policy.yaml'' ''notes.txt'' INFO"] o d
  show ?thesis by blast
qed

text \<open>
  C6, as stated, fails: the JSON text \<open>{"a": 1e3}\<close> is also a YAML document, but
  \<open>json.load\<close> gives the float 1000.0 for \<open>a\<close> and \<open>yaml.safe_load\<close> the string
  \<open>1e3\<close>; the two loads are not equal, and against a schema that wants a number the
  run on the \<open>.json\<close> file prints the valid sentence and the run on the \<open>.yaml\<close>
  file the other one.
\<close>

theorem json_yaml_counterexample:
  "open_file example_world ''num.json'' = Inr num_text \<and>
   open_file example_world ''num.yaml'' = Inr num_text \<and>
   load_data example_world ''num.json'' initial_state = (Return json_num, initial_state) \<and>
   load_data example_world ''num.yaml'' initial_state = (Return yaml_num, initial_state) \<and>
   json_num \<noteq> yaml_num \<and>
   run_stdout example_world (cli ''number.yaml'' ''num.json'' INFO) =
     [''Data is valid according to the policy.''] \<and>
   run_stdout example_world (cli ''number.yaml'' ''num.yaml'' INFO) =
     [''Data does not conform to the defined policy.'']"
proof -
  have p1: "read_and_parse example_world (policy_file (cli ''number.yaml'' ''num.json'' INFO)) =
            Inr number_policy"
    by (simp add: example_num_loads)
  have d1: "read_and_parse example_world (data_file (cli ''number.yaml'' ''num.json'' INFO)) =
            Inr json_num"
    by (simp add: example_num_loads)
  have p2: "read_and_parse example_world (policy_file (cli ''number.yaml'' ''num.yaml'' INFO)) =
            Inr number_policy"
    by (simp add: example_num_loads)
  have d2: "read_and_parse example_world (data_file (cli ''number.yaml'' ''num.yaml'' INFO)) =
            Inr yaml_num"
    by (simp add: example_num_loads)
  have n: "json_num \<noteq> yaml_num"
    by (simp add: json_num_def yaml_num_def)
  have v1: "example_validate json_num number_schema = None"
    by (simp add: example_validate_def number_schema_def example_schema_def)
  have v2: "example_validate yaml_num number_schema = Some not_a_number"
    using n by (simp add: example_validate_def number_schema_def example_schema_def)
  have s1: "run_stdout example_world (cli ''number.yaml'' ''num.json'' INFO) =
              [''Data is valid according to the policy.'']"
    by (simp add: stdout_of_run main_def main_try_loaded [OF p1 d1] number_policy_def
          validate_data_def v1 msg_valid_def)
  have s2: "run_stdout example_world (cli ''number.yaml'' ''num.yaml'' INFO) =
              [''Data does not conform to the defined policy.'']"
    by (simp add: stdout_of_run main_def main_try_loaded [OF p2 d2] number_policy_def
          validate_data_def v2 msg_invalid_def)
  from n s1 s2 show ?thesis
    by (simp add: example_more load_data_Return [OF example_num_loads(1)]
          load_data_Return [OF example_num_loads(2)])
qed

text \<open>
  C6, amended: \<open>load_data\<close> adds nothing of its own to what the parser chosen by the
  suffix returns. For a file whose name ends in \<open>.json\<close> it returns a value exactly
  when \<open>json.load\<close> returns that value on the contents, and for a file whose name
  ends in \<open>.yaml\<close> or \<open>.yml\<close> exactly when \<open>yaml.safe_load\<close> does. So whenever
  the two parsers return the same value for the two files, \<open>load_data\<close> returns it
  for both, logs nothing, and the run is the same whichever of the two files is given, as
  data file or as policy file.
\<close>

theorem json_and_yaml_load_alike:
  assumes "endswith pj ''.json''"
    and "endswith py ''.yaml'' \<or> endswith py ''.yml''"
    and "open_file w pj = Inr cj"
    and "open_file w py = Inr cy"
  shows "(fst (load_data w pj s) = Return v \<longleftrightarrow> json_load w cj = Inr v) \<and>
         (fst (load_data w py s) = Return v \<longleftrightarrow> yaml_safe_load w cy = Inr v) \<and>
         (json_load w cj = Inr v \<and> yaml_safe_load w cy = Inr v \<longrightarrow>
            load_data w pj s = (Return v, s) \<and> load_data w py s = (Return v, s) \<and>
            run w (a\<lparr>data_file := pj\<rparr>) = run w (a\<lparr>data_file := py\<rparr>) \<and>
            run w (a\<lparr>policy_file := pj\<rparr>) = run w (a\<lparr>policy_file := py\<rparr>))"
proof -
  from json_suffix_not_yaml [OF assms(1)] assms(1,3)
  have j: "read_and_parse w pj = json_load w cj"
    by (simp add: read_and_parse_def)
  from assms(2,4) have y: "read_and_parse w py = yaml_safe_load w cy"
    by (simp add: read_and_parse_def)
  have 1: "fst (load_data w pj s) = Return v \<longleftrightarrow> json_load w cj = Inr v"
    by (simp add: load_data_returns_iff j)
  have 2: "fst (load_data w py s) = Return v \<longleftrightarrow> yaml_safe_load w cy = Inr v"
    by (simp add: load_data_returns_iff y)
  have 3: "json_load w cj = Inr v \<and> yaml_safe_load w cy = Inr v \<longrightarrow>
            load_data w pj s = (Return v, s) \<and> load_data w py s = (Return v, s) \<and>
            run w (a\<lparr>data_file := pj\<rparr>) = run w (a\<lparr>data_file := py\<rparr>) \<and>
            run w (a\<lparr>policy_file := pj\<rparr>) = run w (a\<lparr>policy_file := py\<rparr>)"
  proof
    assume h: "json_load w cj = Inr v \<and> yaml_safe_load w cy = Inr v"
    from h j have rj: "read_and_parse w pj = Inr v" by simp
    from h y have ry: "read_and_parse w py = Inr v" by simp
    have lj: "\<And>s. load_data w pj s = (Return v, s)"
      by (rule load_data_Return [OF rj])
    have ly: "\<And>s. load_data w py s = (Return v, s)"
      by (rule load_data_Return [OF ry])
    have "main_try w (a\<lparr>data_file := pj\<rparr>) = main_try w (a\<lparr>data_file := py\<rparr>)"
      by (rule ext) (simp add: main_try_def lj ly)
    then have d: "run w (a\<lparr>data_file := pj\<rparr>) = run w (a\<lparr>data_file := py\<rparr>)"
      by (simp add: run_def main_def)
    have "main_try w (a\<lparr>policy_file := pj\<rparr>) = main_try w (a\<lparr>policy_file := py\<rparr>)"
      by (rule ext) (simp add: main_try_def lj ly)
    then have p: "run w (a\<lparr>policy_file := pj\<rparr>) = run w (a\<lparr>policy_file := py\<rparr>)"
      by (simp add: run_def main_def)
    from lj ly d p
    show "load_data w pj s = (Return v, s) \<and> load_data w py s = (Return v, s) \<and>
            run w (a\<lparr>data_file := pj\<rparr>) = run w (a\<lparr>data_file := py\<rparr>) \<and>
            run w (a\<lparr>policy_file := pj\<rparr>) = run w (a\<lparr>policy_file := py\<rparr>)"
      by blast
  qed
  from 1 2 3 show ?thesis by blast
qed

theorem json_and_yaml_load_alike_witness:
  "load_data example_world ''alice.json'' initial_state = (Return data_alice, initial_state) \<and>
   load_data example_world ''alice.yaml'' initial_state = (Return data_alice, initial_state) \<and>
   run example_world (cli ''policy.yaml'' ''alice.json'' INFO) =
   run example_world (cli ''policy.yaml'' ''alice.yaml'' INFO)"
proof -
  have y: "endswith ''alice.yaml'' ''.yaml'' \<or> endswith ''alice.yaml'' ''.yml''"
    by (simp add: endswith_eval)
  have oj: "open_file example_world ''alice.json'' = Inr alice_json_text"
    by (simp add: example_more)
  have oy: "open_file example_world ''alice.yaml'' = Inr ''name: alice''"
    by (simp add: example_more)
  have pj: "json_load example_world alice_json_text = Inr data_alice"
    by (simp add: example_more)
  have py: "yaml_safe_load example_world ''name: alice'' = Inr data_alice"
    by (simp add: example_more)
  from json_and_yaml_load_alike [OF endswith_more(1) y oj oy,
      where v = data_alice and s = initial_state and a = "cli ''policy.yaml'' ''alice.json'' INFO"]
    pj py
  show ?thesis by (simp add: cli_def)
qed

text \<open>
  C7, as stated, fails twice. With a policy file that exists but has an unsupported
  suffix and a data file that does not exist, the run logs the unsupported-format error
  of the policy file and no file-not-found condition, since the data file is never
  opened. And a path below a regular file references no existing file, but \<open>open\<close>
  raises \<open>NotADirectoryError\<close> on it, which the loader logs as "Error loading data".
\<close>

theorem missing_data_file_counterexample:
  "open_file example_world ''missing.json'' = Inl (no_such_file ''missing.json'') \<and>
   exn_cls (no_such_file ''missing.json'') = FileNotFoundError \<and>
   run_status example_world (cli ''notes.txt'' ''missing.json'' INFO) = 1 \<and>
   run_log example_world (cli ''notes.txt'' ''missing.json'' INFO) =
     [(ERROR, ''Error loading data: Unsupported file format. Use YAML or JSON.''),
      (CRITICAL, ''An unexpected error occurred: Unsupported file format. Use YAML or JSON.'')] \<and>
   open_file example_world ''notes.txt/x.txt'' = Inl (not_a_directory ''notes.txt/x.txt'') \<and>
   run_log example_world (cli ''notes.txt/x.txt'' ''alice.yaml'' INFO) =
     [(ERROR, ''Error loading data: '' @ exn_str (not_a_directory ''notes.txt/x.txt'')),
      (CRITICAL, ''An unexpected error occurred: '' @ exn_str (not_a_directory ''notes.txt/x.txt''))]"
proof -
  have a: "run_status example_world (cli ''notes.txt'' ''missing.json'' INFO) = 1 \<and>
     run_log example_world (cli ''notes.txt'' ''missing.json'' INFO) =
     [(ERROR, ''Error loading data: Unsupported file format. Use YAML or JSON.''),
      (CRITICAL, ''An unexpected error occurred: Unsupported file format. Use YAML or JSON.'')]"
    by (simp add: status_of_run log_of_run main_def main_try_def load_data_def
          read_and_parse_def example_open_def endswith_eval)
  have o: "open_file example_world ''notes.txt/x.txt'' = Inl (not_a_directory ''notes.txt/x.txt'')"
    by (simp add: example_more)
  have b: "run_log example_world (cli ''notes.txt/x.txt'' ''alice.yaml'' INFO) =
     [(ERROR, ''Error loading data: '' @ exn_str (not_a_directory ''notes.txt/x.txt'')),
      (CRITICAL, ''An unexpected error occurred: '' @ exn_str (not_a_directory ''notes.txt/x.txt''))]"
    by (simp add: log_of_run main_def main_try_def load_data_def
          read_and_parse_open_fails [OF o])
  from a o b show ?thesis
    by (simp add: example_missing)
qed

text \<open>
  C7, amended: when \<open>open\<close> raises \<open>FileNotFoundError\<close> on the policy path, or
  the policy file loads and \<open>open\<close> raises \<open>FileNotFoundError\<close> on the data path,
  the loader logs "File not found: " and the path at error level and raises the error
  again, the top-level handler logs it as critical, nothing is printed and the run exits
  with status 1. Whenever \<open>open\<close> raises any exception on one of the two paths, the
  run prints nothing and exits with status 1 through the top-level handler.
\<close>

theorem missing_file_exit:
  assumes "exn_cls e = FileNotFoundError"
  shows "(open_file w (policy_file a) = Inl e \<longrightarrow>
            run_status w a = 1 \<and> run_stdout w a = [] \<and>
            run_log w a = [(ERROR, ''File not found: '' @ policy_file a),
                           (CRITICAL, ''An unexpected error occurred: '' @ exn_str e)]) \<and>
         ((\<exists>v. read_and_parse w (policy_file a) = Inr v) \<and> open_file w (data_file a) = Inl e \<longrightarrow>
            run_status w a = 1 \<and> run_stdout w a = [] \<and>
            run_log w a = [(ERROR, ''File not found: '' @ data_file a),
                           (CRITICAL, ''An unexpected error occurred: '' @ exn_str e)]) \<and>
         (open_file w (policy_file a) = Inl x \<or> open_file w (data_file a) = Inl x \<longrightarrow>
            run_status w a = 1 \<and> run_stdout w a = [] \<and>
            (\<exists>m e'. run_log w a = [(ERROR, m),
                                  (CRITICAL, ''An unexpected error occurred: '' @ exn_str e')]))"
proof -
  have 1: "open_file w (policy_file a) = Inl e \<longrightarrow>
            run_status w a = 1 \<and> run_stdout w a = [] \<and>
            run_log w a = [(ERROR, ''File not found: '' @ policy_file a),
                           (CRITICAL, ''An unexpected error occurred: '' @ exn_str e)]"
  proof
    assume "open_file w (policy_file a) = Inl e"
    from run_of_failed_main [OF main_policy_not_found [OF this assms]]
    show "run_status w a = 1 \<and> run_stdout w a = [] \<and>
            run_log w a = [(ERROR, ''File not found: '' @ policy_file a),
                           (CRITICAL, ''An unexpected error occurred: '' @ exn_str e)]" .
  qed
  have 2: "(\<exists>v. read_and_parse w (policy_file a) = Inr v) \<and> open_file w (data_file a) = Inl e \<longrightarrow>
            run_status w a = 1 \<and> run_stdout w a = [] \<and>
            run_log w a = [(ERROR, ''File not found: '' @ data_file a),
                           (CRITICAL, ''An unexpected error occurred: '' @ exn_str e)]"
  proof
    assume h: "(\<exists>v. read_and_parse w (policy_file a) = Inr v) \<and> open_file w (data_file a) = Inl e"
    then obtain v where v: "read_and_parse w (policy_file a) = Inr v" by blast
    from h have d: "open_file w (data_file a) = Inl e" by blast
    from run_of_failed_main [OF main_data_not_found [OF v d assms]]
    show "run_status w a = 1 \<and> run_stdout w a = [] \<and>
            run_log w a = [(ERROR, ''File not found: '' @ data_file a),
                           (CRITICAL, ''An unexpected error occurred: '' @ exn_str e)]" .
  qed
  have 3: "open_file w (policy_file a) = Inl x \<or> open_file w (data_file a) = Inl x \<longrightarrow>
            run_status w a = 1 \<and> run_stdout w a = [] \<and>
            (\<exists>m e'. run_log w a = [(ERROR, m),
                                  (CRITICAL, ''An unexpected error occurred: '' @ exn_str e')])"
  proof
    assume "open_file w (policy_file a) = Inl x \<or> open_file w (data_file a) = Inl x"
    then have "(\<exists>e. read_and_parse w (policy_file a) = Inl e) \<or>
               (\<exists>e. read_and_parse w (data_file a) = Inl e)"
      by (auto dest: read_and_parse_open_fails)
    from load_fails_exit [OF this]
    show "run_status w a = 1 \<and> run_stdout w a = [] \<and>
            (\<exists>m e'. run_log w a = [(ERROR, m),
                                  (CRITICAL, ''An unexpected error occurred: '' @ exn_str e')])" .
  qed
  from 1 2 3 show ?thesis by blast
qed

theorem missing_file_exit_witness:
  "run_status example_world (cli ''missing.json'' ''alice.yaml'' INFO) = 1 \<and>
   run_log example_world (cli ''missing.json'' ''alice.yaml'' INFO) =
     [(ERROR, ''File not found: missing.json''),
      (CRITICAL, ''An unexpected error occurred: '' @ exn_str (no_such_file ''missing.json''))] \<and>
   run_status example_world (cli ''policy.yaml'' ''missing.json'' INFO) = 1 \<and>
   run_log example_world (cli ''policy.yaml'' ''missing.json'' INFO) =
     [(ERROR, ''File not found: missing.json''),
      (CRITICAL, ''An unexpected error occurred: '' @ exn_str (no_such_file ''missing.json''))]"
proof -
  have c: "exn_cls (no_such_file ''missing.json'') = FileNotFoundError"
    by simp
  have o1: "open_file example_world (policy_file (cli ''missing.json'' ''alice.yaml'' INFO)) =
            Inl (no_such_file ''missing.json'')"
    by (simp add: example_missing)
  have p2: "\<exists>v. read_and_parse example_world (policy_file (cli ''policy.yaml'' ''missing.json'' INFO)) = Inr v"
    by (simp add: example_loads)
  have o2: "open_file example_world (data_file (cli ''policy.yaml'' ''missing.json'' INFO)) =
            Inl (no_such_file ''missing.json'')"
    by (simp add: example_missing)
  from missing_file_exit [OF c, of example_world "cli ''missing.json'' ''alice.yaml'' INFO"] o1
  have a: "run_status example_world (cli ''missing.json'' ''alice.yaml'' INFO) = 1 \<and>
     run_log example_world (cli ''missing.json'' ''alice.yaml'' INFO) =
     [(ERROR, ''File not found: '' @ policy_file (cli ''missing.json'' ''alice.yaml'' INFO)),
      (CRITICAL, ''An unexpected error occurred: '' @ exn_str (no_such_file ''missing.json''))]"
    by blast
  from missing_file_exit [OF c, of example_world "cli ''policy.yaml'' ''missing.json'' INFO"] p2 o2
  have b: "run_status example_world (cli ''policy.yaml'' ''missing.json'' INFO) = 1 \<and>
     run_log example_world (cli ''policy.yaml'' ''missing.json'' INFO) =
     [(ERROR, ''File not found: '' @ data_file (cli ''policy.yaml'' ''missing.json'' INFO)),
      (CRITICAL, ''An unexpected error occurred: '' @ exn_str (no_such_file ''missing.json''))]"
    by blast
  from a b show ?thesis by simp
qed

section \<open>The log level\<close>

text \<open>
  C8: two runs on the same policy and data files that differ only in the log level
  have the same exit status and print the same lines; they also make the same logging
  calls, and the level only decides which of the records are written out.
\<close>

theorem log_level_keeps_outcome:
  "run_status w (a\<lparr>log_level := l1\<rparr>) = run_status w (a\<lparr>log_level := l2\<rparr>) \<and>
   run_stdout w (a\<lparr>log_level := l1\<rparr>) = run_stdout w (a\<lparr>log_level := l2\<rparr>) \<and>
   run_log w (a\<lparr>log_level := l1\<rparr>) = run_log w (a\<lparr>log_level := l2\<rparr>)"
  by (simp add: run_relevel)

theorem log_level_keeps_outcome_witness:
  "run_status example_world (cli ''policy.yaml'' ''age.yaml'' DEBUG) =
   run_status example_world (cli ''policy.yaml'' ''age.yaml'' CRITICAL) \<and>
   run_stdout example_world (cli ''policy.yaml'' ''age.yaml'' DEBUG) =
   run_stdout example_world (cli ''policy.yaml'' ''age.yaml'' CRITICAL)"
  using log_level_keeps_outcome [where w = example_world and a = "cli ''policy.yaml'' ''age.yaml'' INFO"
      and ?l1.0 = DEBUG and ?l2.0 = CRITICAL]
  by (simp add: cli_def)

section \<open>Missing files and policies that are not mappings\<close>

text \<open>
  C9, as stated, fails: \<open>notes.txt\<close> is a regular file, so the path
  \<open>notes.txt/x.txt\<close> references no existing file, but \<open>open\<close> raises
  \<open>NotADirectoryError\<close> on it and the load logs "Error loading data: ...", not the
  file-not-found condition.
\<close>

theorem not_a_directory_counterexample:
  "open_file example_world ''notes.txt'' = Inr ''name: alice'' \<and>
   open_file example_world ''notes.txt/x.txt'' = Inl (not_a_directory ''notes.txt/x.txt'') \<and>
   exn_cls (not_a_directory ''notes.txt/x.txt'') \<noteq> FileNotFoundError \<and>
   load_data example_world ''notes.txt/x.txt'' initial_state =
     (Raise (not_a_directory ''notes.txt/x.txt''),
      logging_log ERROR (''Error loading data: '' @ exn_str (not_a_directory ''notes.txt/x.txt''))
        initial_state)"
proof -
  have o: "open_file example_world ''notes.txt/x.txt'' = Inl (not_a_directory ''notes.txt/x.txt'')"
    by (simp add: example_more)
  have "load_data example_world ''notes.txt/x.txt'' initial_state =
     (Raise (not_a_directory ''notes.txt/x.txt''),
      logging_log ERROR (''Error loading data: '' @ exn_str (not_a_directory ''notes.txt/x.txt''))
        initial_state)"
    by (rule load_data_open_fails(2) [OF o]) simp_all
  with o show ?thesis
    by (simp add: example_more)
qed

text \<open>
  C9, amended: \<open>load_data\<close> opens the file before it looks at the suffix, so for
  every path on which \<open>open\<close> raises, whatever the suffix, the load raises that same
  exception and the suffix is never examined. When the exception is a
  \<open>FileNotFoundError\<close> the load logs "File not found: " and the path at error level;
  when it is another I/O error the load logs "Error loading data: " and its text.
\<close>

theorem open_failure_before_suffix:
  assumes "open_file w p = Inl e"
  shows "fst (load_data w p s) = Raise e \<and>
         (exn_cls e = FileNotFoundError \<longrightarrow>
            load_data w p s = (Raise e, logging_log ERROR (''File not found: '' @ p) s)) \<and>
         (exn_cls e \<noteq> FileNotFoundError \<and> exn_cls e \<noteq> YAMLError \<and>
          exn_cls e \<noteq> JSONDecodeError \<longrightarrow>
            load_data w p s = (Raise e, logging_log ERROR (''Error loading data: '' @ exn_str e) s))"
  using assms by (simp add: load_data_def read_and_parse_def)

theorem open_failure_before_suffix_witness:
  "\<not> endswith ''absent.cfg'' ''.yaml'' \<and> \<not> endswith ''absent.cfg'' ''.yml'' \<and>
   \<not> endswith ''absent.cfg'' ''.json'' \<and>
   load_data example_world ''absent.cfg'' initial_state =
     (Raise (no_such_file ''absent.cfg''),
      logging_log ERROR ''File not found: absent.cfg'' initial_state)"
proof -
  have o: "open_file example_world ''absent.cfg'' = Inl (no_such_file ''absent.cfg'')"
    by (simp add: example_missing)
  have c: "exn_cls (no_such_file ''absent.cfg'') = FileNotFoundError"
    by simp
  from open_failure_before_suffix [OF o, of initial_state] c
  have "load_data example_world ''absent.cfg'' initial_state =
     (Raise (no_such_file ''absent.cfg''),
      logging_log ERROR (''File not found: '' @ ''absent.cfg'') initial_state)"
    by blast
  then show ?thesis by (simp add: endswith_def suffix_to_prefix)
qed

text \<open>
  C10, as stated, fails: a policy file holding the scalar \<open>hello\<close> loads to a string,
  which is not a mapping and cannot be indexed by \<open>'schema'\<close>; the membership test is
  the substring test and is false, so the run ends through the dedicated exit with the
  error "Policy file must contain a 'schema' key." and not through the top-level
  handler.
\<close>

theorem scalar_policy_counterexample:
  "read_and_parse example_world ''hello.yaml'' = Inr (PStr ''hello'') \<and>
   py_getitem (PStr ''hello'') ''schema'' =
     Inl (Exn TypeError (''string indices must be integers, not '' @ quoted ''str'')) \<and>
   main_try example_world (cli ''hello.yaml'' ''alice.yaml'' INFO) (initial_state\<lparr>root_level := INFO\<rparr>) =
     (SysExit 1, logging_log ERROR msg_no_schema (initial_state\<lparr>root_level := INFO\<rparr>)) \<and>
   run_status example_world (cli ''hello.yaml'' ''alice.yaml'' INFO) = 1 \<and>
   run_log example_world (cli ''hello.yaml'' ''alice.yaml'' INFO) = [(ERROR, msg_no_schema)]"
proof -
  have p: "read_and_parse example_world (policy_file (cli ''hello.yaml'' ''alice.yaml'' INFO)) =
           Inr (PStr ''hello'')"
    by (simp add: example_loads)
  have d: "read_and_parse example_world (data_file (cli ''hello.yaml'' ''alice.yaml'' INFO)) =
           Inr data_alice"
    by (simp add: example_loads)
  have s: "\<not> sublist ''schema'' ''hello''"
    by (simp add: sublist_code)
  have t: "\<And>s. main_try example_world (cli ''hello.yaml'' ''alice.yaml'' INFO) s =
                (SysExit 1, logging_log ERROR msg_no_schema s)"
    using s by (simp add: main_try_loaded [OF p d])
  show ?thesis
    by (simp add: example_loads status_of_run log_of_run main_def t)
qed

text \<open>
  C10, amended: when the policy file loads to a value that is not a mapping and the
  data file loads, the run prints nothing and exits with status 1. If the test
  \<open>'schema' in policy\<close> raises (null, a boolean, a number, bytes, a timestamp) or is
  true (a string with the substring, a list, tuple or set with the element), a
  \<open>TypeError\<close> reaches the top-level handler, which logs the one critical record
  "An unexpected error occurred: ..."; if the test is false, the run ends through the
  dedicated exit with the one error record "Policy file must contain a 'schema' key.".
\<close>

theorem non_mapping_policy_exit:
  assumes "read_and_parse w (policy_file a) = Inr v"
    and "\<forall>kvs. v \<noteq> PDict kvs"
    and "read_and_parse w (data_file a) = Inr d"
  shows "run_status w a = 1 \<and> run_stdout w a = [] \<and>
         (py_contains ''schema'' v \<noteq> Inr False \<longrightarrow>
            (\<exists>e. fst (main_try w a (initial_state\<lparr>root_level := log_level a\<rparr>)) = Raise e \<and>
                 exn_cls e = TypeError \<and>
                 run_log w a = [(CRITICAL, ''An unexpected error occurred: '' @ exn_str e)])) \<and>
         (py_contains ''schema'' v = Inr False \<longrightarrow>
            fst (main_try w a (initial_state\<lparr>root_level := log_level a\<rparr>)) = SysExit 1 \<and>
            run_log w a = [(ERROR, msg_no_schema)])"
proof (cases "py_contains ''schema'' v")
  case (Inl e)
  have t: "\<And>s. main_try w a s = (Raise e, s)"
    by (simp add: main_try_loaded [OF assms(1,3)] Inl)
  from py_contains_error_is_TypeError [OF Inl] show ?thesis
    by (simp add: status_of_run stdout_of_run log_of_run main_def t Inl)
next
  case (Inr b)
  show ?thesis
  proof (cases b)
    case True
    from py_getitem_non_dict [OF assms(2)] obtain e where
      g: "py_getitem v ''schema'' = Inl e" and c: "exn_cls e = TypeError"
      by blast
    have t: "\<And>s. main_try w a s = (Raise e, s)"
      by (simp add: main_try_loaded [OF assms(1,3)] Inr True g)
    from c show ?thesis
      by (simp add: status_of_run stdout_of_run log_of_run main_def t Inr True)
  next
    case False
    have t: "\<And>s. main_try w a s = (SysExit 1, logging_log ERROR msg_no_schema s)"
      by (simp add: main_try_loaded [OF assms(1,3)] Inr False)
    show ?thesis
      by (simp add: status_of_run stdout_of_run log_of_run main_def t Inr False)
  qed
qed

theorem non_mapping_policy_exit_witness:
  "py_contains ''schema'' PNone \<noteq> Inr False \<and>
   run_status example_world (cli ''empty.yaml'' ''alice.yaml'' INFO) = 1 \<and>
   run_stdout example_world (cli ''empty.yaml'' ''alice.yaml'' INFO) = [] \<and>
   (\<exists>e. fst (main_try example_world (cli ''empty.yaml'' ''alice.yaml'' INFO)
               (initial_state\<lparr>root_level := INFO\<rparr>)) = Raise e \<and>
        exn_cls e = TypeError \<and>
        run_log example_world (cli ''empty.yaml'' ''alice.yaml'' INFO) =
          [(CRITICAL, ''An unexpected error occurred: '' @ exn_str e)])"
proof -
  have p: "read_and_parse example_world (policy_file (cli ''empty.yaml'' ''alice.yaml'' INFO)) =
           Inr PNone"
    by (simp add: example_loads)
  have n: "\<forall>kvs. PNone \<noteq> PDict kvs"
    by simp
  have d: "read_and_parse example_world (data_file (cli ''empty.yaml'' ''alice.yaml'' INFO)) =
           Inr data_alice"
    by (simp add: example_loads)
  have c: "py_contains ''schema'' PNone \<noteq> Inr False"
    by simp
  from non_mapping_policy_exit [OF p n d] c show ?thesis
    by simp
qed

end
